theory Spec2Isabelle
  imports Complex_Main "HOL-Library.Sublist"
begin

section \<open>The station signer of ev-energy-trade (server.js)\<close>

text \<open>
  The repository's service is one Express handler, \<open>POST /sign-stop\<close>, in
  \<^verbatim>\<open>src/server.js\<close>. It reads six properties of the request body, checks three
  of them with \<^verbatim>\<open>ethers.utils.isAddress\<close>, compares \<open>station\<close> with the address of the
  process's wallet, and then asks the wallet for an EIP-712 signature.

  The handler is embedded as a computation that returns the list of its effects in the
  order in which they happen: every call into the ethers library, every line written by
  \<^verbatim>\<open>console.error\<close> and every response sent through \<^verbatim>\<open>res\<close>. An exception thrown inside
  the \<^verbatim>\<open>try\<close> block is a value of the left summand.

  The ethers library is not part of the repository. Its address syntax check, its
  typed-data hash and verifier, and the wallet (address, key, signer) are parameters of
  the model.
\<close>

subsection \<open>JavaScript values\<close>

text \<open>
  The values \<^verbatim>\<open>express.json()\<close> can put into \<^verbatim>\<open>req.body\<close>, together with
  \<^verbatim>\<open>undefined\<close> for an absent property. An object is the list of its properties in
  insertion order, each key once. Strings are lists of code units below 256.
\<close>

datatype jsval =
    JUndefined
  | JNull
  | JBool bool
  | JNum rat
  | JStr string
  | JArr "jsval list"
  | JObj "(string \<times> jsval) list"

text \<open>A thrown error object; \<open>message\<close> is its \<^verbatim>\<open>message\<close> property.\<close>

datatype exn = Error (message: string)

text \<open>
  Reading a property of a value that is neither \<^verbatim>\<open>undefined\<close> nor \<^verbatim>\<open>null\<close>. The
  handler reads the six claim properties only; arrays and primitives have none of them.
\<close>

fun get_prop :: "jsval \<Rightarrow> string \<Rightarrow> jsval" where
  "get_prop (JObj kvs) k = (case map_of kvs k of Some v \<Rightarrow> v | None \<Rightarrow> JUndefined)"
| "get_prop _ k = JUndefined"

text \<open>
  \<^verbatim>\<open>String.prototype.toLowerCase\<close> on code units below 256: the upper-case letters
  are A to Z and U+00C0 to U+00DE without the multiplication sign U+00D7; each maps to
  the code unit 32 above it.
\<close>

definition lower_char :: "char \<Rightarrow> char" where
  "lower_char c =
     (let n = (of_char c :: nat)
      in if 65 \<le> n \<and> n \<le> 90 then char_of (n + 32)
         else if n = 215 then c
         else if 192 \<le> n \<and> n \<le> 222 then char_of (n + 32)
         else c)"

definition toLowerCase :: "string \<Rightarrow> string" where
  "toLowerCase s = map lower_char s"

subsection \<open>Effects and exceptions\<close>

text \<open>
  \<open>Respond st j\<close> is \<^verbatim>\<open>res.status(st).json(j)\<close>; \<^verbatim>\<open>res.json(j)\<close> alone sends status 200.
\<close>

datatype event =
    CallIsAddress jsval
  | CallSignTypedData jsval jsval jsval
  | ConsoleError exn
  | Respond nat jsval

type_synonym 'a js = "(exn + 'a) \<times> event list"

definition js_return :: "'a \<Rightarrow> 'a js" where
  "js_return a = (Inr a, [])"

definition js_throw :: "exn \<Rightarrow> 'a js" where
  "js_throw e = (Inl e, [])"

definition js_effect :: "event \<Rightarrow> unit js" where
  "js_effect ev = (Inr (), [ev])"

text \<open>Sequencing: an exception of the first part skips the second.\<close>

definition js_then :: "'a js \<Rightarrow> ('a \<Rightarrow> 'b js) \<Rightarrow> 'b js" where
  "js_then m f =
     (case m of
        (Inl e, t) \<Rightarrow> (Inl e, t)
      | (Inr a, t) \<Rightarrow> (case f a of (r, t') \<Rightarrow> (r, t @ t')))"

text \<open>\<^verbatim>\<open>try { m } catch (e) { h e }\<close>\<close>

definition js_try :: "'a js \<Rightarrow> (exn \<Rightarrow> 'a js) \<Rightarrow> 'a js" where
  "js_try m h =
     (case m of
        (Inl e, t) \<Rightarrow> (case h e of (r, t') \<Rightarrow> (r, t @ t'))
      | (Inr a, t) \<Rightarrow> (Inr a, t))"

text \<open>\<^verbatim>\<open>a || b\<close> on booleans: \<open>b\<close> is evaluated only when \<open>a\<close> is false.\<close>

definition js_or :: "bool js \<Rightarrow> bool js \<Rightarrow> bool js" where
  "js_or a b = js_then a (\<lambda>x. if x then js_return True else b)"

definition js_not :: "bool js \<Rightarrow> bool js" where
  "js_not a = js_then a (\<lambda>x. js_return (\<not> x))"

subsection \<open>The ethers library, as far as the handler uses it\<close>

text \<open>
  \<open>addressSyntax\<close> is the library's decision on a string (\<^verbatim>\<open>getAddress\<close> does not
  throw). \<open>verifyTypedData\<close> is \<^verbatim>\<open>ethers.utils.verifyTypedData\<close>, the independent
  verifier: it returns the address a signature recovers to. \<open>hashTypedData\<close> is the
  digest the typed-data signer computes from a domain, a schema and a value, the
  resolution of address names included; it throws when a value cannot be encoded under
  the schema. \<open>recoverAddress\<close> is \<^verbatim>\<open>ethers.utils.recoverAddress\<close>, from a digest and a
  signature to an address.
\<close>

record ethers =
  addressSyntax :: "string \<Rightarrow> bool"
  verifyTypedData :: "jsval \<Rightarrow> jsval \<Rightarrow> jsval \<Rightarrow> string \<Rightarrow> exn + string"
  hashTypedData :: "jsval \<Rightarrow> jsval \<Rightarrow> jsval \<Rightarrow> exn + string"
  recoverAddress :: "string \<Rightarrow> string \<Rightarrow> string"

text \<open>
  \<^verbatim>\<open>const wallet = new ethers.Wallet(STATION_PK)\<close>: the process-wide wallet, built once
  from the station's private key. \<open>signTypedData\<close> is \<^verbatim>\<open>wallet._signTypedData\<close>; a
  rejected promise is the left summand. \<open>signDigest\<close> is the signature of the wallet's
  key over a digest.
\<close>

record wallet =
  address :: string
  privateKey :: string
  signTypedData :: "jsval \<Rightarrow> jsval \<Rightarrow> jsval \<Rightarrow> exn + string"
  signDigest :: "string \<Rightarrow> string"



text \<open>
  \<^verbatim>\<open>ethers.utils.isAddress(v)\<close>: the library rejects every value that is not a string
  before it looks at its syntax.
\<close>

definition isAddress :: "ethers \<Rightarrow> jsval \<Rightarrow> bool" where
  "isAddress L v = (case v of JStr s \<Rightarrow> addressSyntax L s | _ \<Rightarrow> False)"

definition call_isAddress :: "ethers \<Rightarrow> jsval \<Rightarrow> bool js" where
  "call_isAddress L v = (Inr (isAddress L v), [CallIsAddress v])"

definition call_signTypedData :: "wallet \<Rightarrow> jsval \<Rightarrow> jsval \<Rightarrow> jsval \<Rightarrow> string js" where
  "call_signTypedData w d t v = (signTypedData w d t v, [CallSignTypedData d t v])"

subsection \<open>server.js\<close>

text \<open>\<^verbatim>\<open>function domain(chainId, contractAddr)\<close>\<close>

definition domain :: "jsval \<Rightarrow> jsval \<Rightarrow> jsval" where
  "domain chainId contractAddr =
     JObj [(''name'', JStr ''EVEnergy''),
           (''version'', JStr ''1''),
           (''chainId'', chainId),
           (''verifyingContract'', contractAddr)]"

text \<open>\<^verbatim>\<open>const types = { SessionStop: [...] }\<close>\<close>

definition field :: "string \<Rightarrow> string \<Rightarrow> jsval" where
  "field n t = JObj [(''name'', JStr n), (''type'', JStr t)]"

definition types :: jsval where
  "types =
     JObj [(''SessionStop'',
            JArr [field ''user'' ''address'',
                  field ''station'' ''address'',
                  field ''sessionId'' ''bytes32'',
                  field ''kWhMilli'' ''uint256'',
                  field ''chainId'' ''uint256'',
                  field ''contractAddr'' ''address''])]"

text \<open>
  \<^verbatim>\<open>const { user, station, sessionId, kWhMilli, chainId, contractAddr } = req.body\<close>.
  Destructuring \<^verbatim>\<open>undefined\<close> or \<^verbatim>\<open>null\<close> throws a TypeError; the text of its message
  is the engine's, the model fixes one.
\<close>

record claim =
  user :: jsval
  station :: jsval
  sessionId :: jsval
  kWhMilli :: jsval
  chainId :: jsval
  contractAddr :: jsval

definition claim_of :: "jsval \<Rightarrow> claim" where
  "claim_of body =
     \<lparr>user = get_prop body ''user'', station = get_prop body ''station'',
      sessionId = get_prop body ''sessionId'', kWhMilli = get_prop body ''kWhMilli'',
      chainId = get_prop body ''chainId'', contractAddr = get_prop body ''contractAddr''\<rparr>"

definition nullish :: "jsval \<Rightarrow> bool" where
  "nullish v = (v = JUndefined \<or> v = JNull)"

definition destructure :: "jsval \<Rightarrow> claim js" where
  "destructure body =
     (if nullish body
      then js_throw (Error ''Cannot destructure property user of req.body'')
      else js_return (claim_of body))"

text \<open>
  \<^verbatim>\<open>station.toLowerCase()\<close>: a method call, which throws a TypeError on a value that
  has no such method.
\<close>

definition call_toLowerCase :: "jsval \<Rightarrow> string js" where
  "call_toLowerCase v =
     (case v of
        JStr s \<Rightarrow> js_return (toLowerCase s)
      | _ \<Rightarrow> js_throw (Error ''station.toLowerCase is not a function''))"

text \<open>\<^verbatim>\<open>const value = { user, station, sessionId, kWhMilli, chainId, contractAddr }\<close>\<close>

definition value_of :: "claim \<Rightarrow> jsval" where
  "value_of c =
     JObj [(''user'', user c), (''station'', station c), (''sessionId'', sessionId c),
           (''kWhMilli'', kWhMilli c), (''chainId'', chainId c),
           (''contractAddr'', contractAddr c)]"

definition error_body :: "string \<Rightarrow> jsval" where
  "error_body m = JObj [(''error'', JStr m)]"

definition signed_body :: "string \<Rightarrow> string \<Rightarrow> jsval" where
  "signed_body sig a = JObj [(''signature'', JStr sig), (''signer'', JStr a)]"

text \<open>The body of the \<^verbatim>\<open>try\<close> block, lines 38 to 52.\<close>

definition try_block :: "ethers \<Rightarrow> wallet \<Rightarrow> jsval \<Rightarrow> unit js" where
  "try_block L w body =
     js_then (destructure body) (\<lambda>c.
     js_then (js_or (js_not (call_isAddress L (user c)))
               (js_or (js_not (call_isAddress L (station c)))
                      (js_not (call_isAddress L (contractAddr c))))) (\<lambda>bad.
     if bad then js_effect (Respond 400 (error_body ''Bad address in payload''))
     else
       js_then (call_toLowerCase (station c)) (\<lambda>s.
       if s \<noteq> toLowerCase (address w)
       then js_effect (Respond 400 (error_body ''Station address mismatch''))
       else
         js_then (call_signTypedData w (domain (chainId c) (contractAddr c)) types
                    (value_of c)) (\<lambda>sig.
         js_effect (Respond 200 (signed_body sig (address w)))))))"

text \<open>The \<^verbatim>\<open>catch\<close> block, lines 53 to 56: \<^verbatim>\<open>e.message || "sign failed"\<close>.\<close>

definition catch_block :: "exn \<Rightarrow> unit js" where
  "catch_block e =
     js_then (js_effect (ConsoleError e)) (\<lambda>_.
     js_effect (Respond 500
       (error_body (if message e = [] then ''sign failed'' else message e))))"

text \<open>\<^verbatim>\<open>app.post("/sign-stop", async (req, res) => { ... })\<close>\<close>

definition sign_stop :: "ethers \<Rightarrow> wallet \<Rightarrow> jsval \<Rightarrow> unit js" where
  "sign_stop L w body = js_try (try_block L w body) catch_block"

text \<open>What an observer of one request sees.\<close>

definition trace :: "ethers \<Rightarrow> wallet \<Rightarrow> jsval \<Rightarrow> event list" where
  "trace L w body = snd (sign_stop L w body)"

fun responses :: "event list \<Rightarrow> (nat \<times> jsval) list" where
  "responses [] = []"
| "responses (Respond st j # t) = (st, j) # responses t"
| "responses (_ # t) = responses t"

fun sign_calls :: "event list \<Rightarrow> (jsval \<times> jsval \<times> jsval) list" where
  "sign_calls [] = []"
| "sign_calls (CallSignTypedData d t v # tr) = (d, t, v) # sign_calls tr"
| "sign_calls (_ # tr) = sign_calls tr"

text \<open>
  The station named by a claim is the wallet's own: it is a string whose lower-case form
  is the lower-case form of \<^verbatim>\<open>wallet.address\<close>.
\<close>

definition station_matches :: "wallet \<Rightarrow> jsval \<Rightarrow> bool" where
  "station_matches w v =
     (case v of JStr s \<Rightarrow> toLowerCase s = toLowerCase (address w) | _ \<Rightarrow> False)"

definition valid_addresses :: "ethers \<Rightarrow> claim \<Rightarrow> bool" where
  "valid_addresses L c =
     (isAddress L (user c) \<and> isAddress L (station c) \<and> isAddress L (contractAddr c))"

text \<open>The validation rejections among the responses of a request: those with status 400.\<close>

definition rejection :: "ethers \<Rightarrow> wallet \<Rightarrow> jsval \<Rightarrow> (nat \<times> jsval) list" where
  "rejection L w body = filter (\<lambda>r. fst r = 400) (responses (trace L w body))"



subsection \<open>A small instance of the library\<close>

text \<open>
  To run the handler on concrete requests the parameters need values. This instance
  accepts as an address the lower-case form \<open>0x\<close> plus forty hexadecimal digits. Its
  typed-data hash refuses a \<open>sessionId\<close> that is not \<open>0x\<close> plus sixty-four
  hexadecimal digits, as the library's encoder does for a \<open>bytes32\<close> field, with a
  message in the style of the library's; otherwise the digest is the text of the four
  domain properties and the six claim values, so that digests of different domains or
  claims differ. A signature is the digest behind a marker, and a signature recovers to
  the station's address on its own digest and to another address on any other.
\<close>

definition hex_lower :: "string \<Rightarrow> bool" where
  "hex_lower s = list_all (\<lambda>c. c \<in> set ''0123456789abcdef'') s"

definition hex_any :: "string \<Rightarrow> bool" where
  "hex_any s = list_all (\<lambda>c. c \<in> set ''0123456789abcdefABCDEF'') s"

definition sample_addressSyntax :: "string \<Rightarrow> bool" where
  "sample_addressSyntax s = (length s = 42 \<and> take 2 s = ''0x'' \<and> hex_lower (drop 2 s))"

definition sample_bytes32 :: "jsval \<Rightarrow> bool" where
  "sample_bytes32 v =
     (case v of
        JStr s \<Rightarrow> length s = 66 \<and> take 2 s = ''0x'' \<and> hex_any (drop 2 s)
      | _ \<Rightarrow> False)"

definition bytes32_message :: string where
  "bytes32_message =
     ''invalid length for bytes32 (argument=value, code=INVALID_ARGUMENT, version=hash/5.7.0)''"

text \<open>The decimal digits of a natural number.\<close>

function dec :: "nat \<Rightarrow> string" where
  "dec n =
     (if n < 10 then [''0123456789'' ! n]
      else dec (n div 10) @ [''0123456789'' ! (n mod 10)])"
  by pat_completeness auto
termination
  by (relation "measure id") auto

declare dec.simps [simp del]

definition text_of :: "jsval \<Rightarrow> string" where
  "text_of v = (case v of JStr s \<Rightarrow> s | JNum r \<Rightarrow> dec (nat \<lfloor>r\<rfloor>) | _ \<Rightarrow> ''?'')"

definition sample_digest :: "jsval \<Rightarrow> jsval \<Rightarrow> string" where
  "sample_digest d v =
     concat (map (\<lambda>k. text_of (get_prop d k) @ '';'')
               [''name'', ''version'', ''chainId'', ''verifyingContract''])
     @ concat (map (\<lambda>k. text_of (get_prop v k) @ '';'')
               [''user'', ''station'', ''sessionId'', ''kWhMilli'', ''chainId'',
                ''contractAddr''])"

definition sample_hash :: "jsval \<Rightarrow> jsval \<Rightarrow> jsval \<Rightarrow> exn + string" where
  "sample_hash d t v =
     (if sample_bytes32 (get_prop v ''sessionId'') then Inr (sample_digest d v)
      else Inl (Error bytes32_message))"

definition sample_signDigest :: "string \<Rightarrow> string" where
  "sample_signDigest h = ''0x5a17:'' @ h"

definition sample_sign :: "jsval \<Rightarrow> jsval \<Rightarrow> jsval \<Rightarrow> exn + string" where
  "sample_sign d t v =
     (case sample_hash d t v of Inl e \<Rightarrow> Inl e | Inr h \<Rightarrow> Inr (sample_signDigest h))"

definition sample_station :: string where
  "sample_station = ''0x2222222222222222222222222222222222222222''"

definition other_station :: string where
  "other_station = ''0x4444444444444444444444444444444444444444''"

definition sample_key :: string where
  "sample_key = ''0x9999999999999999999999999999999999999999999999999999999999999999''"

definition sample_wallet :: wallet where
  "sample_wallet =
     \<lparr>address = sample_station, privateKey = sample_key, signTypedData = sample_sign,
      signDigest = sample_signDigest\<rparr>"

definition sample_recover :: "string \<Rightarrow> string \<Rightarrow> string" where
  "sample_recover h s = (if s = sample_signDigest h then sample_station else other_station)"

definition sample_verify :: "jsval \<Rightarrow> jsval \<Rightarrow> jsval \<Rightarrow> string \<Rightarrow> exn + string" where
  "sample_verify d t v s =
     (case sample_hash d t v of Inl e \<Rightarrow> Inl e | Inr h \<Rightarrow> Inr (sample_recover h s))"

definition sample_ethers :: ethers where
  "sample_ethers =
     \<lparr>addressSyntax = sample_addressSyntax, verifyTypedData = sample_verify,
      hashTypedData = sample_hash, recoverAddress = sample_recover\<rparr>"


text \<open>A request body with the six properties; \<open>kWhMilli\<close> and \<open>chainId\<close> as in the
  repository's local network (chain 1337).\<close>

definition request :: "string \<Rightarrow> string \<Rightarrow> string \<Rightarrow> string \<Rightarrow> jsval" where
  "request u s i c =
     JObj [(''user'', JStr u), (''station'', JStr s), (''sessionId'', JStr i),
           (''kWhMilli'', JStr ''12345''), (''chainId'', JNum 1337),
           (''contractAddr'', JStr c)]"

definition sample_user :: string where
  "sample_user = ''0x1111111111111111111111111111111111111111''"

definition sample_contract :: string where
  "sample_contract = ''0x3333333333333333333333333333333333333333''"

definition sample_session :: string where
  "sample_session = ''0x0000000000000000000000000000000000000000000000000000000000000001''"

section \<open>The handler, case by case\<close>

lemmas js_defs = js_return_def js_throw_def js_effect_def js_then_def js_try_def js_or_def
  js_not_def call_isAddress_def call_signTypedData_def call_toLowerCase_def destructure_def
  try_block_def catch_block_def sign_stop_def

lemma isAddress_string: "isAddress L v \<Longrightarrow> \<exists>s. v = JStr s"
  by (cases v) (simp_all add: isAddress_def)

lemma sign_stop_nullish:
  "nullish body \<Longrightarrow>
   sign_stop L w body =
     (Inr (), [ConsoleError (Error ''Cannot destructure property user of req.body''),
               Respond 500 (error_body ''Cannot destructure property user of req.body'')])"
  by (simp add: js_defs)

lemma sign_stop_bad_user:
  "\<not> nullish body \<Longrightarrow> \<not> isAddress L (user (claim_of body)) \<Longrightarrow>
   sign_stop L w body =
     (Inr (), [CallIsAddress (user (claim_of body)),
               Respond 400 (error_body ''Bad address in payload'')])"
  by (simp add: js_defs)

lemma sign_stop_bad_station:
  "\<not> nullish body \<Longrightarrow> isAddress L (user (claim_of body)) \<Longrightarrow>
   \<not> isAddress L (station (claim_of body)) \<Longrightarrow>
   sign_stop L w body =
     (Inr (), [CallIsAddress (user (claim_of body)), CallIsAddress (station (claim_of body)),
               Respond 400 (error_body ''Bad address in payload'')])"
  by (simp add: js_defs)

lemma sign_stop_bad_contract:
  "\<not> nullish body \<Longrightarrow> isAddress L (user (claim_of body)) \<Longrightarrow>
   isAddress L (station (claim_of body)) \<Longrightarrow>
   \<not> isAddress L (contractAddr (claim_of body)) \<Longrightarrow>
   sign_stop L w body =
     (Inr (), [CallIsAddress (user (claim_of body)), CallIsAddress (station (claim_of body)),
               CallIsAddress (contractAddr (claim_of body)),
               Respond 400 (error_body ''Bad address in payload'')])"
  by (simp add: js_defs)

lemma sign_stop_mismatch:
  "\<not> nullish body \<Longrightarrow> valid_addresses L (claim_of body) \<Longrightarrow>
   \<not> station_matches w (station (claim_of body)) \<Longrightarrow>
   sign_stop L w body =
     (Inr (), [CallIsAddress (user (claim_of body)), CallIsAddress (station (claim_of body)),
               CallIsAddress (contractAddr (claim_of body)),
               Respond 400 (error_body ''Station address mismatch'')])"
  by (cases "station (claim_of body)")
     (simp_all add: js_defs station_matches_def isAddress_def valid_addresses_def)

lemma sign_stop_signed:
  "\<not> nullish body \<Longrightarrow> valid_addresses L (claim_of body) \<Longrightarrow>
   station_matches w (station (claim_of body)) \<Longrightarrow>
   signTypedData w (domain (chainId (claim_of body)) (contractAddr (claim_of body))) types
     (value_of (claim_of body)) = Inr sig \<Longrightarrow>
   sign_stop L w body =
     (Inr (), [CallIsAddress (user (claim_of body)), CallIsAddress (station (claim_of body)),
               CallIsAddress (contractAddr (claim_of body)),
               CallSignTypedData
                 (domain (chainId (claim_of body)) (contractAddr (claim_of body)))
                 types (value_of (claim_of body)),
               Respond 200 (signed_body sig (address w))])"
  by (cases "station (claim_of body)")
     (simp_all add: js_defs station_matches_def isAddress_def valid_addresses_def)

lemma sign_stop_sign_failed:
  "\<not> nullish body \<Longrightarrow> valid_addresses L (claim_of body) \<Longrightarrow>
   station_matches w (station (claim_of body)) \<Longrightarrow>
   signTypedData w (domain (chainId (claim_of body)) (contractAddr (claim_of body))) types
     (value_of (claim_of body)) = Inl e \<Longrightarrow>
   sign_stop L w body =
     (Inr (), [CallIsAddress (user (claim_of body)), CallIsAddress (station (claim_of body)),
               CallIsAddress (contractAddr (claim_of body)),
               CallSignTypedData
                 (domain (chainId (claim_of body)) (contractAddr (claim_of body)))
                 types (value_of (claim_of body)),
               ConsoleError e,
               Respond 500
                 (error_body (if message e = [] then ''sign failed'' else message e))])"
  by (cases "station (claim_of body)")
     (simp_all add: js_defs station_matches_def isAddress_def valid_addresses_def)

text \<open>Every request falls under exactly one of the seven cases above.\<close>

lemma sign_stop_cases:
  obtains
    (Nullish) "nullish body"
  | (Bad_User) "\<not> nullish body" "\<not> isAddress L (user (claim_of body))"
  | (Bad_Station) "\<not> nullish body" "isAddress L (user (claim_of body))"
      "\<not> isAddress L (station (claim_of body))"
  | (Bad_Contract) "\<not> nullish body" "isAddress L (user (claim_of body))"
      "isAddress L (station (claim_of body))" "\<not> isAddress L (contractAddr (claim_of body))"
  | (Mismatch) "\<not> nullish body" "valid_addresses L (claim_of body)"
      "\<not> station_matches w (station (claim_of body))"
  | (Signed) sig where "\<not> nullish body" "valid_addresses L (claim_of body)"
      "station_matches w (station (claim_of body))"
      "signTypedData w (domain (chainId (claim_of body)) (contractAddr (claim_of body)))
         types (value_of (claim_of body)) = Inr sig"
  | (Sign_Failed) e where "\<not> nullish body" "valid_addresses L (claim_of body)"
      "station_matches w (station (claim_of body))"
      "signTypedData w (domain (chainId (claim_of body)) (contractAddr (claim_of body)))
         types (value_of (claim_of body)) = Inl e"
proof (cases "signTypedData w (domain (chainId (claim_of body)) (contractAddr (claim_of body)))
         types (value_of (claim_of body))")
  case (Inl e)
  then show ?thesis
    using that unfolding valid_addresses_def by blast
next
  case (Inr sig)
  then show ?thesis
    using that unfolding valid_addresses_def by blast
qed

subsection \<open>The sample instance on the sample requests\<close>

lemma claim_of_request:
  "claim_of (request u s i c) =
     \<lparr>user = JStr u, station = JStr s, sessionId = JStr i, kWhMilli = JStr ''12345'',
      chainId = JNum 1337, contractAddr = JStr c\<rparr>"
  by (simp add: claim_of_def request_def)

lemma request_not_nullish: "\<not> nullish (request u s i c)"
  by (simp add: nullish_def request_def)

lemma sample_addresses:
  "isAddress sample_ethers (JStr sample_user)"
  "isAddress sample_ethers (JStr sample_station)"
  "isAddress sample_ethers (JStr sample_contract)"
  "isAddress sample_ethers (JStr other_station)"
  "\<not> isAddress sample_ethers (JStr ''0x1234'')"
  by (simp_all add: isAddress_def sample_ethers_def sample_addressSyntax_def hex_lower_def
      sample_user_def sample_station_def sample_contract_def other_station_def)

lemma sample_valid_addresses:
  "valid_addresses sample_ethers (claim_of (request sample_user sample_station i sample_contract))"
  "valid_addresses sample_ethers (claim_of (request sample_user other_station i sample_contract))"
  by (simp_all add: valid_addresses_def claim_of_request sample_addresses)

lemma sample_station_matches:
  "station_matches sample_wallet (station (claim_of (request u sample_station i c)))"
  "\<not> station_matches sample_wallet (station (claim_of (request u other_station i c)))"
  by (simp_all add: station_matches_def sample_wallet_def sample_station_def other_station_def
      toLowerCase_def lower_char_def claim_of_request)




lemma sample_sign_short:
  "signTypedData sample_wallet d t (value_of (claim_of (request u s ''0x01'' c))) =
     Inl (Error bytes32_message)"
  by (simp add: sample_wallet_def sample_sign_def sample_hash_def claim_of_request
      value_of_def sample_bytes32_def)











lemma bytes32_message_not_empty: "bytes32_message \<noteq> []"
  by (simp add: bytes32_message_def)

lemma rejection_decision:
  "\<not> nullish body \<Longrightarrow>
   rejection L w body =
     (if \<not> valid_addresses L (claim_of body)
      then [(400, error_body ''Bad address in payload'')]
      else if \<not> station_matches w (station (claim_of body))
      then [(400, error_body ''Station address mismatch'')]
      else [])"
  by (cases rule: sign_stop_cases [where body = body and L = L and w = w])
     (simp_all add: rejection_def trace_def valid_addresses_def sign_stop_bad_user
        sign_stop_bad_station sign_stop_bad_contract sign_stop_mismatch sign_stop_signed
        sign_stop_sign_failed)

section \<open>The claims of the specification\<close>

text \<open>
  C2. A claim whose three address fields are syntactically valid and whose station is
  not, up to letter case, the wallet's address is answered with status 400 and the
  message \<open>Station address mismatch\<close>; the signer is not called.
\<close>

theorem station_mismatch_rejected:
  assumes "\<not> nullish body"
    and "valid_addresses L (claim_of body)"
    and "\<not> station_matches w (station (claim_of body))"
  shows "responses (trace L w body) = [(400, error_body ''Station address mismatch'')]
       \<and> sign_calls (trace L w body) = []"
  using assms by (simp add: trace_def sign_stop_mismatch)

theorem station_mismatch_rejected_witness:
  "responses (trace sample_ethers sample_wallet
       (request sample_user other_station sample_session sample_contract))
     = [(400, error_body ''Station address mismatch'')]
   \<and> sign_calls (trace sample_ethers sample_wallet
       (request sample_user other_station sample_session sample_contract)) = []"
  using station_mismatch_rejected [OF request_not_nullish sample_valid_addresses(2)
      sample_station_matches(2)]
  by simp




text \<open>
  C3, as the code has it. A claim in which \<open>user\<close>, \<open>station\<close> or \<open>contractAddr\<close> is
  not a valid address is answered with status 400 and the one message
  \<open>Bad address in payload\<close>, whichever field is at fault; the signer is not called.
\<close>

theorem bad_address_rejected:
  assumes "\<not> nullish body"
    and "\<not> valid_addresses L (claim_of body)"
  shows "responses (trace L w body) = [(400, error_body ''Bad address in payload'')]
       \<and> sign_calls (trace L w body) = []"
  using assms
  by (cases rule: sign_stop_cases [where body = body and L = L and w = w])
     (simp_all add: trace_def sign_stop_bad_user sign_stop_bad_station sign_stop_bad_contract)

theorem bad_address_rejected_witness:
  "responses (trace sample_ethers sample_wallet
       (request ''0x1234'' sample_station sample_session sample_contract))
     = [(400, error_body ''Bad address in payload'')]
   \<and> sign_calls (trace sample_ethers sample_wallet
       (request ''0x1234'' sample_station sample_session sample_contract)) = []"
  using bad_address_rejected [OF request_not_nullish,
      of sample_ethers "''0x1234''" sample_station sample_session sample_contract sample_wallet]
  by (simp add: valid_addresses_def claim_of_request sample_addresses)

text \<open>
  C3, as the specification states it, fails: the rejection does not name the field. A
  claim whose only malformed address is \<open>user\<close> and a claim whose only malformed address
  is \<open>contractAddr\<close> receive the same response.
\<close>

theorem bad_address_field_not_named:
  "\<not> isAddress sample_ethers
       (user (claim_of (request ''0x1234'' sample_station sample_session sample_contract)))
   \<and> isAddress sample_ethers
       (contractAddr (claim_of (request ''0x1234'' sample_station sample_session sample_contract)))
   \<and> isAddress sample_ethers
       (user (claim_of (request sample_user sample_station sample_session ''0x1234'')))
   \<and> \<not> isAddress sample_ethers
       (contractAddr (claim_of (request sample_user sample_station sample_session ''0x1234'')))
   \<and> responses (trace sample_ethers sample_wallet
         (request ''0x1234'' sample_station sample_session sample_contract))
       = [(400, error_body ''Bad address in payload'')]
   \<and> responses (trace sample_ethers sample_wallet
         (request sample_user sample_station sample_session ''0x1234''))
       = [(400, error_body ''Bad address in payload'')]"
  by (simp add: trace_def claim_of_request sample_addresses
      sign_stop_bad_user [OF request_not_nullish]
      sign_stop_bad_contract [OF request_not_nullish])

text \<open>
  C4. The checks run in the order \<open>user\<close>, \<open>station\<close>, \<open>contractAddr\<close>, then the
  comparison of \<open>station\<close> with the wallet's address, and the first one that fails ends
  the request: the trace shows the library called on \<open>user\<close> alone when \<open>user\<close> is
  malformed, on \<open>user\<close> and \<open>station\<close> when \<open>station\<close> is the first malformed field,
  and on all three before either the address rejection for \<open>contractAddr\<close> or the
  mismatch rejection. A claim with a malformed address and a station that is not the
  wallet's receives the address rejection.
\<close>

theorem checks_in_order:
  assumes "\<not> nullish body"
  shows "(\<not> isAddress L (user (claim_of body)) \<longrightarrow>
            trace L w body =
              [CallIsAddress (user (claim_of body)),
               Respond 400 (error_body ''Bad address in payload'')])
       \<and> (isAddress L (user (claim_of body)) \<and> \<not> isAddress L (station (claim_of body)) \<longrightarrow>
            trace L w body =
              [CallIsAddress (user (claim_of body)), CallIsAddress (station (claim_of body)),
               Respond 400 (error_body ''Bad address in payload'')])
       \<and> (isAddress L (user (claim_of body)) \<and> isAddress L (station (claim_of body))
            \<and> \<not> isAddress L (contractAddr (claim_of body)) \<longrightarrow>
            trace L w body =
              [CallIsAddress (user (claim_of body)), CallIsAddress (station (claim_of body)),
               CallIsAddress (contractAddr (claim_of body)),
               Respond 400 (error_body ''Bad address in payload'')])
       \<and> (valid_addresses L (claim_of body)
            \<and> \<not> station_matches w (station (claim_of body)) \<longrightarrow>
            trace L w body =
              [CallIsAddress (user (claim_of body)), CallIsAddress (station (claim_of body)),
               CallIsAddress (contractAddr (claim_of body)),
               Respond 400 (error_body ''Station address mismatch'')])
       \<and> (\<not> valid_addresses L (claim_of body)
            \<and> \<not> station_matches w (station (claim_of body)) \<longrightarrow>
            responses (trace L w body) = [(400, error_body ''Bad address in payload'')])"
  using assms
  by (cases rule: sign_stop_cases [where body = body and L = L and w = w])
     (simp_all add: trace_def valid_addresses_def sign_stop_bad_user sign_stop_bad_station
        sign_stop_bad_contract sign_stop_mismatch)

theorem checks_in_order_witness:
  "trace sample_ethers sample_wallet
       (request ''0x1234'' other_station sample_session sample_contract)
     = [CallIsAddress (JStr ''0x1234''), Respond 400 (error_body ''Bad address in payload'')]
   \<and> trace sample_ethers sample_wallet
       (request sample_user other_station sample_session ''0x1234'')
     = [CallIsAddress (JStr sample_user), CallIsAddress (JStr other_station),
        CallIsAddress (JStr ''0x1234''), Respond 400 (error_body ''Bad address in payload'')]
   \<and> trace sample_ethers sample_wallet
       (request sample_user other_station sample_session sample_contract)
     = [CallIsAddress (JStr sample_user), CallIsAddress (JStr other_station),
        CallIsAddress (JStr sample_contract),
        Respond 400 (error_body ''Station address mismatch'')]"
  using checks_in_order [OF request_not_nullish,
      of sample_ethers "''0x1234''" other_station sample_session sample_contract sample_wallet]
    checks_in_order [OF request_not_nullish,
      of sample_ethers sample_user other_station sample_session "''0x1234''" sample_wallet]
    checks_in_order [OF request_not_nullish,
      of sample_ethers sample_user other_station sample_session sample_contract sample_wallet]
    sample_station_matches(2) [of sample_user sample_session sample_contract]
  by (simp add: valid_addresses_def claim_of_request sample_addresses)

text \<open>
  C5. For an accepted claim the signer is called once, with the domain descriptor
  \<open>{name: "EVEnergy", version: "1", chainId, verifyingContract: contractAddr}\<close> built
  from the claim's own \<open>chainId\<close> and \<open>contractAddr\<close>, with the schema \<open>SessionStop\<close>
  of six fields in the order and with the types of the source, and with the six claim
  values.
\<close>

theorem signer_arguments:
  assumes "\<not> nullish body"
    and "valid_addresses L (claim_of body)"
    and "station_matches w (station (claim_of body))"
  shows "sign_calls (trace L w body) =
     [(JObj [(''name'', JStr ''EVEnergy''), (''version'', JStr ''1''),
             (''chainId'', chainId (claim_of body)),
             (''verifyingContract'', contractAddr (claim_of body))],
       JObj [(''SessionStop'',
              JArr [JObj [(''name'', JStr ''user''), (''type'', JStr ''address'')],
                    JObj [(''name'', JStr ''station''), (''type'', JStr ''address'')],
                    JObj [(''name'', JStr ''sessionId''), (''type'', JStr ''bytes32'')],
                    JObj [(''name'', JStr ''kWhMilli''), (''type'', JStr ''uint256'')],
                    JObj [(''name'', JStr ''chainId''), (''type'', JStr ''uint256'')],
                    JObj [(''name'', JStr ''contractAddr''), (''type'', JStr ''address'')]])],
       JObj [(''user'', user (claim_of body)), (''station'', station (claim_of body)),
             (''sessionId'', sessionId (claim_of body)),
             (''kWhMilli'', kWhMilli (claim_of body)),
             (''chainId'', chainId (claim_of body)),
             (''contractAddr'', contractAddr (claim_of body))])]"
  using assms
  by (cases rule: sign_stop_cases [where body = body and L = L and w = w])
     (simp_all add: trace_def sign_stop_signed sign_stop_sign_failed valid_addresses_def
        domain_def types_def field_def value_of_def)

theorem signer_arguments_witness:
  "sign_calls (trace sample_ethers sample_wallet
       (request sample_user sample_station sample_session sample_contract)) =
     [(JObj [(''name'', JStr ''EVEnergy''), (''version'', JStr ''1''),
             (''chainId'', JNum 1337), (''verifyingContract'', JStr sample_contract)],
       JObj [(''SessionStop'',
              JArr [JObj [(''name'', JStr ''user''), (''type'', JStr ''address'')],
                    JObj [(''name'', JStr ''station''), (''type'', JStr ''address'')],
                    JObj [(''name'', JStr ''sessionId''), (''type'', JStr ''bytes32'')],
                    JObj [(''name'', JStr ''kWhMilli''), (''type'', JStr ''uint256'')],
                    JObj [(''name'', JStr ''chainId''), (''type'', JStr ''uint256'')],
                    JObj [(''name'', JStr ''contractAddr''), (''type'', JStr ''address'')]])],
       JObj [(''user'', JStr sample_user), (''station'', JStr sample_station),
             (''sessionId'', JStr sample_session), (''kWhMilli'', JStr ''12345''),
             (''chainId'', JNum 1337), (''contractAddr'', JStr sample_contract)])]"
  using signer_arguments [OF request_not_nullish sample_valid_addresses(1)
      sample_station_matches(1), of sample_session]
  by (simp add: claim_of_request)

text \<open>
  C6. No exception leaves the handler, and every request is answered exactly once, as
  the last effect of the handler: with status 200 and \<open>{signature, signer}\<close>, with
  status 400 and \<open>{error: message}\<close> for one of the two validation messages, or with
  status 500 and \<open>{error: message}\<close> for a non-empty message. A malformed address and a
  foreign station give status 400, a failing signer gives status 500.
\<close>

theorem one_structured_response:
  "fst (sign_stop L w body) = Inr ()
   \<and> (\<exists>st j. responses (trace L w body) = [(st, j)]
          \<and> last (trace L w body) = Respond st j
          \<and> ((st = 200
               \<and> (\<exists>sig. j = JObj [(''signature'', JStr sig), (''signer'', JStr (address w))]))
             \<or> (st = 400
                 \<and> (j = JObj [(''error'', JStr ''Bad address in payload'')]
                    \<or> j = JObj [(''error'', JStr ''Station address mismatch'')]))
             \<or> (st = 500 \<and> (\<exists>m. m \<noteq> [] \<and> j = JObj [(''error'', JStr m)]))))
   \<and> (\<not> nullish body \<and> \<not> valid_addresses L (claim_of body) \<longrightarrow>
        responses (trace L w body)
          = [(400, JObj [(''error'', JStr ''Bad address in payload'')])])
   \<and> (\<not> nullish body \<and> valid_addresses L (claim_of body)
        \<and> \<not> station_matches w (station (claim_of body)) \<longrightarrow>
        responses (trace L w body)
          = [(400, JObj [(''error'', JStr ''Station address mismatch'')])])
   \<and> (\<not> nullish body \<and> valid_addresses L (claim_of body)
        \<and> station_matches w (station (claim_of body))
        \<and> (\<exists>e. signTypedData w
                  (domain (chainId (claim_of body)) (contractAddr (claim_of body)))
                  types (value_of (claim_of body)) = Inl e) \<longrightarrow>
        (\<exists>m. m \<noteq> []
           \<and> responses (trace L w body) = [(500, JObj [(''error'', JStr m)])]))"
proof (cases rule: sign_stop_cases [where body = body and L = L and w = w])
  case Nullish
  then show ?thesis
    by (simp add: trace_def sign_stop_nullish error_body_def)
next
  case Bad_User
  then show ?thesis
    by (simp add: trace_def sign_stop_bad_user valid_addresses_def error_body_def)
next
  case Bad_Station
  then show ?thesis
    by (simp add: trace_def sign_stop_bad_station valid_addresses_def error_body_def)
next
  case Bad_Contract
  then show ?thesis
    by (simp add: trace_def sign_stop_bad_contract valid_addresses_def error_body_def)
next
  case Mismatch
  then show ?thesis
    by (simp add: trace_def sign_stop_mismatch error_body_def)
next
  case (Signed sig)
  then show ?thesis
    by (simp add: trace_def sign_stop_signed signed_body_def)
next
  case (Sign_Failed e)
  then show ?thesis
    by (simp add: trace_def sign_stop_sign_failed error_body_def)
qed

theorem one_structured_response_witness:
  "fst (sign_stop sample_ethers sample_wallet
       (request ''0x1234'' sample_station sample_session sample_contract)) = Inr ()
   \<and> responses (trace sample_ethers sample_wallet
       (request ''0x1234'' sample_station sample_session sample_contract))
     = [(400, JObj [(''error'', JStr ''Bad address in payload'')])]
   \<and> responses (trace sample_ethers sample_wallet
       (request sample_user other_station sample_session sample_contract))
     = [(400, JObj [(''error'', JStr ''Station address mismatch'')])]
   \<and> (\<exists>m. m \<noteq> []
        \<and> responses (trace sample_ethers sample_wallet
            (request sample_user sample_station ''0x01'' sample_contract))
          = [(500, JObj [(''error'', JStr m)])])"
  using one_structured_response [of sample_ethers sample_wallet
      "request ''0x1234'' sample_station sample_session sample_contract"]
    one_structured_response [of sample_ethers sample_wallet
      "request sample_user other_station sample_session sample_contract"]
    one_structured_response [of sample_ethers sample_wallet
      "request sample_user sample_station ''0x01'' sample_contract"]
    sample_valid_addresses [of sample_session] sample_valid_addresses(1) [of "''0x01''"]
    sample_station_matches(2) [of sample_user sample_session sample_contract]
    sample_station_matches(1) [of sample_user "''0x01''" sample_contract]
    sample_sign_short [of _ _ sample_user sample_station sample_contract]
  by (simp add: request_not_nullish valid_addresses_def claim_of_request sample_addresses)




text \<open>
  C8. Whether a claim is rejected by validation, and with which response, depends on
  \<open>user\<close>, \<open>station\<close>, \<open>contractAddr\<close> and the wallet's address only: two requests that
  agree on these three fields, served by wallets with the same address, are rejected
  alike or not at all, whatever their \<open>sessionId\<close>, \<open>kWhMilli\<close> and \<open>chainId\<close> are.
\<close>

theorem validation_ignores_other_fields:
  assumes "\<not> nullish b1" and "\<not> nullish b2"
    and "user (claim_of b1) = user (claim_of b2)"
    and "station (claim_of b1) = station (claim_of b2)"
    and "contractAddr (claim_of b1) = contractAddr (claim_of b2)"
    and "address w1 = address w2"
  shows "rejection L w1 b1 = rejection L w2 b2"
proof -
  have "valid_addresses L (claim_of b1) = valid_addresses L (claim_of b2)"
    using assms(3-5) by (simp add: valid_addresses_def)
  moreover have "station_matches w1 (station (claim_of b1))
      = station_matches w2 (station (claim_of b2))"
    using assms(4,6)
    by (cases "station (claim_of b2)") (simp_all add: station_matches_def)
  ultimately show ?thesis
    using assms(1,2) by (simp add: rejection_decision)
qed

theorem validation_ignores_other_fields_witness:
  "rejection sample_ethers sample_wallet
       (request sample_user sample_station sample_session sample_contract)
     = rejection sample_ethers sample_wallet
       (JObj [(''user'', JStr sample_user), (''station'', JStr sample_station),
              (''sessionId'', JNum 7), (''kWhMilli'', JNum (- 5)), (''chainId'', JNull),
              (''contractAddr'', JStr sample_contract)])"
  using validation_ignores_other_fields [of
      "request sample_user sample_station sample_session sample_contract"
      "JObj [(''user'', JStr sample_user), (''station'', JStr sample_station),
              (''sessionId'', JNum 7), (''kWhMilli'', JNum (- 5)), (''chainId'', JNull),
              (''contractAddr'', JStr sample_contract)]"
      sample_wallet sample_wallet sample_ethers]
  by (simp add: claim_of_def request_def nullish_def)

text \<open>
  C10. A claim that passes validation and on which the typed-data signer throws (as it
  does when \<open>sessionId\<close> or \<open>kWhMilli\<close> cannot be encoded under the schema) is answered
  with status 500 and the error's message, and not with a validation rejection: all
  three address checks have passed and the signer has been called before the failure.
\<close>

theorem unencodable_claim_is_server_error:
  assumes "\<not> nullish body"
    and "valid_addresses L (claim_of body)"
    and "station_matches w (station (claim_of body))"
    and "signTypedData w (domain (chainId (claim_of body)) (contractAddr (claim_of body)))
           types (value_of (claim_of body)) = Inl e"
  shows "responses (trace L w body)
           = [(500, error_body (if message e = [] then ''sign failed'' else message e))]
       \<and> rejection L w body = []
       \<and> sign_calls (trace L w body) =
           [(domain (chainId (claim_of body)) (contractAddr (claim_of body)), types,
             value_of (claim_of body))]"
  using assms by (simp add: trace_def rejection_def sign_stop_sign_failed)

theorem unencodable_claim_is_server_error_witness:
  "responses (trace sample_ethers sample_wallet
       (request sample_user sample_station ''0x01'' sample_contract))
     = [(500, error_body bytes32_message)]
   \<and> rejection sample_ethers sample_wallet
       (request sample_user sample_station ''0x01'' sample_contract) = []"
  using unencodable_claim_is_server_error [OF request_not_nullish sample_valid_addresses(1)
      sample_station_matches(1) sample_sign_short]
  by (simp add: bytes32_message_not_empty)


end
